theory Spec2Isabelle
  imports Complex_Main "HOL-Library.Sublist"
begin

section \<open>The Map Host Component of \<open>src/components/Earth.tsx\<close>\<close>

subsection \<open>Values crossing the boundary to the map widget\<close>

text \<open>
  The widget (\<open>maplibregl.Map\<close>) is an external library. Of an instance the component
  uses \<open>on\<close>, \<open>remove\<close> and, when the instance has it, \<open>setProjection\<close>
  (the source tests \<open>if (map.setProjection)\<close> before the call). An instance is
  identified by a number; the model hands out the numbers in construction order.
  The calls the source wraps in \<open>try\<close> (the constructor and the two \<open>on\<close>
  registrations) may throw; \<open>remove\<close>, \<open>setProjection\<close> and the console are
  taken to return.
\<close>

record widget =
  wid :: nat
  has_setProjection :: bool

text \<open>
  The payload of the widget's \<open>error\<close> event, as far as the handler reads it:
  \<open>e.error?.message\<close>. Either of \<open>e.error\<close> and \<open>e.error.message\<close> may be
  undefined (\<open>None\<close>).
\<close>

datatype js_error = JsError (message: "string option")

datatype error_event = ErrorEvent (error: "js_error option")

text \<open>
  A value thrown inside the \<open>try\<close> block and bound by \<open>catch (error: any)\<close>.
  \<open>Thrown_nullish\<close> is \<open>null\<close> or \<open>undefined\<close>, on which reading
  \<open>.message\<close> is itself a TypeError; every other value carries the result of reading
  its \<open>message\<close> property (\<open>None\<close> for undefined).
\<close>

datatype thrown = Thrown_nullish | Thrown_value "string option"

datatype console_entry =
    Console_log string
  | Console_error string error_event

datatype map_event = Load | Error error_event

text \<open>
  What the widget library does in one run of the effect: the outcome of
  \<open>new maplibregl.Map(...)\<close> (a thrown value, or an instance that has or lacks
  \<open>setProjection\<close>) and whether either \<open>map.on\<close> registration throws.
\<close>

record map_env =
  new_Map :: "thrown + bool"
  on_load :: "thrown option"
  on_error :: "thrown option"

subsection \<open>The component's state\<close>

text \<open>
  \<open>container\<close> says whether \<open>mapContainer.current\<close> is non-null, \<open>mapRef\<close> is
  \<open>mapRef.current\<close>, \<open>status\<close> the React state. The remaining fields record the calls the
  component makes: \<open>setStatus\<close>, \<open>console\<close>, the constructor, \<open>map.on\<close>,
  \<open>map.setProjection\<close> and \<open>map.remove\<close>.
\<close>

record component =
  container :: bool
  mapRef :: "widget option"
  status :: string
  status_log :: "string list"
  console :: "console_entry list"
  constructed :: "widget list"
  listeners :: "(widget \<times> string) list"
  projections :: "(nat \<times> string) list"
  removed :: "nat list"

definition initial :: "bool \<Rightarrow> component" where
  "initial c =
     \<lparr>container = c, mapRef = None, status = ''Initializing Globe...'', status_log = [],
      console = [], constructed = [], listeners = [], projections = [], removed = []\<rparr>"

definition setStatus :: "string \<Rightarrow> component \<Rightarrow> component" where
  "setStatus v s = s\<lparr>status := v, status_log := status_log s @ [v]\<rparr>"

subsection \<open>String helpers of the JavaScript runtime\<close>

text \<open>\<open>String.prototype.includes\<close>: the argument occurs as a contiguous substring.\<close>

fun str_includes :: "string \<Rightarrow> string \<Rightarrow> bool" where
  "str_includes [] sub = (sub = [])"
| "str_includes (c # cs) sub = (prefix sub (c # cs) \<or> str_includes cs sub)"

text \<open>A template literal \<open>`${v}`\<close> prints undefined as the word \<open>undefined\<close>.\<close>

definition template :: "string option \<Rightarrow> string" where
  "template v = (case v of None \<Rightarrow> ''undefined'' | Some m \<Rightarrow> m)"

subsection \<open>The two event handlers\<close>

definition load_handler :: "widget \<Rightarrow> component \<Rightarrow> component" where
  "load_handler mp s =
     (let s1 = setStatus [] s;
          s2 = s1\<lparr>console := console s1 @ [Console_log ''Playful Globe Style Loaded'']\<rparr>
      in if has_setProjection mp
         then s2\<lparr>projections := projections s2 @ [(wid mp, ''globe'')]\<rparr>
         else s2)"

text \<open>The optional chain \<open>e.error?.message\<close>.\<close>

definition optional_message :: "error_event \<Rightarrow> string option" where
  "optional_message e = (case error e of None \<Rightarrow> None | Some err \<Rightarrow> message err)"

text \<open>
  The guard \<open>e.error?.message && ...\<close> asks for a truthy message: undefined and the
  empty string are both falsy.
\<close>

definition error_handler :: "error_event \<Rightarrow> component \<Rightarrow> component" where
  "error_handler e s =
     (let s1 = s\<lparr>console := console s @ [Console_error ''Map Error:'' e]\<rparr>
      in case optional_message e of
           None \<Rightarrow> s1
         | Some m \<Rightarrow>
             if m \<noteq> [] \<and> \<not> str_includes m ''glyph'' \<and> \<not> str_includes m ''sprite''
             then setStatus (''Error: '' @ m) s1
             else s1)"

subsection \<open>The mount effect and its cleanup\<close>

text \<open>
  The body of the \<open>try\<close> block: the state it leaves and the value it threw, if any.
  \<open>mapRef.current\<close> is assigned before the listeners are registered.
\<close>

definition try_body :: "map_env \<Rightarrow> component \<Rightarrow> component \<times> thrown option" where
  "try_body env s =
     (case new_Map env of
        Inl t \<Rightarrow> (s, Some t)
      | Inr sp \<Rightarrow>
          (let mp = \<lparr>wid = length (constructed s), has_setProjection = sp\<rparr>;
               s1 = s\<lparr>constructed := constructed s @ [mp]\<rparr>;
               s2 = s1\<lparr>mapRef := Some mp\<rparr>
           in case on_load env of
                Some t \<Rightarrow> (s2, Some t)
              | None \<Rightarrow>
                  (let s3 = s2\<lparr>listeners := listeners s2 @ [(mp, ''load'')]\<rparr>
                   in case on_error env of
                        Some t \<Rightarrow> (s3, Some t)
                      | None \<Rightarrow> (s3\<lparr>listeners := listeners s3 @ [(mp, ''error'')]\<rparr>, None))))"

datatype type_error = TypeError

definition catch_handler :: "thrown \<Rightarrow> component \<Rightarrow> type_error + component" where
  "catch_handler t s =
     (case t of
        Thrown_nullish \<Rightarrow> Inl TypeError
      | Thrown_value msg \<Rightarrow> Inr (setStatus (''Initialization Failed: '' @ template msg) s))"

text \<open>
  How a run of the effect ends: with \<open>return;\<close> (no cleanup is handed to React), with
  the cleanup function, or with an exception that leaves the effect.
\<close>

datatype effect_result = Returned_undefined | Returned_cleanup | Threw type_error

definition mount_effect :: "map_env \<Rightarrow> component \<Rightarrow> component \<times> effect_result" where
  "mount_effect env s =
     (if mapRef s \<noteq> None then (s, Returned_undefined)
      else if \<not> container s then (s, Returned_undefined)
      else case try_body env s of
             (s1, None) \<Rightarrow> (s1, Returned_cleanup)
           | (s1, Some t) \<Rightarrow>
               (case catch_handler t s1 of
                  Inl err \<Rightarrow> (s1, Threw err)
                | Inr s2 \<Rightarrow> (s2, Returned_cleanup)))"

definition cleanup :: "component \<Rightarrow> component" where
  "cleanup s =
     (case mapRef s of
        None \<Rightarrow> s
      | Some mp \<Rightarrow> (s\<lparr>removed := removed s @ [wid mp]\<rparr>)\<lparr>mapRef := None\<rparr>)"

subsection \<open>The hosting framework\<close>

text \<open>
  The widget fires an event on an instance: every handler registered on that instance
  under the event's name runs.
\<close>

fun fire :: "widget \<times> map_event \<Rightarrow> component \<Rightarrow> component" where
  "fire (mp, Load) s =
     fold (\<lambda>_. load_handler mp) (filter (\<lambda>l. l = (mp, ''load'')) (listeners s)) s"
| "fire (mp, Error e) s =
     fold (\<lambda>_. error_handler e) (filter (\<lambda>l. l = (mp, ''error'')) (listeners s)) s"

text \<open>React runs, on unmount, the cleanup the effect returned, when it returned one.\<close>

definition unmount :: "effect_result \<Rightarrow> component \<Rightarrow> component" where
  "unmount r s = (if r = Returned_cleanup then cleanup s else s)"

text \<open>One mounted life of the component: the effect, then events, then unmount.\<close>

definition lifecycle :: "map_env \<Rightarrow> (widget \<times> map_event) list \<Rightarrow> component \<Rightarrow> component" where
  "lifecycle env evs s =
     (case mount_effect env s of (s1, r) \<Rightarrow> unmount r (fold fire evs s1))"

text \<open>
  What React can do with one component instance, step by step: run the effect (on mount,
  and again on a remount that keeps the instance's refs, as StrictMode does), unmount
  (which runs the cleanup that the latest run of the effect returned, if it returned
  one), or let the widget deliver an event. A schedule carries the component's state
  and how the latest run of the effect ended.
\<close>

datatype react_step =
    Run_effect map_env
  | Run_unmount
  | Deliver "widget \<times> map_event"

fun run_step :: "react_step \<Rightarrow> component \<times> effect_result \<Rightarrow> component \<times> effect_result" where
  "run_step (Run_effect env) (s, r) = mount_effect env s"
| "run_step Run_unmount (s, r) = (unmount r s, Returned_undefined)"
| "run_step (Deliver ev) (s, r) = (fire ev s, r)"

definition react_run :: "react_step list \<Rightarrow> bool \<Rightarrow> component" where
  "react_run steps c = fst (fold run_step steps (initial c, Returned_undefined))"

text \<open>The widgets constructed and not yet disposed, as the reference knows them.\<close>

definition referenced :: "component \<Rightarrow> nat list" where
  "referenced s = (case mapRef s of None \<Rightarrow> [] | Some mp \<Rightarrow> [wid mp])"

section \<open>The Style Document of \<open>src/components/Earth.tsx\<close>\<close>

text \<open>
  \<open>PLAYFUL_GLOBE_STYLE\<close> is an object literal of numbers, strings, arrays and nested
  object literals. An object is kept as the list of its properties in the order the literal
  writes them (no property name occurs twice in one object, and none is an array index,
  so this is also the order in which JavaScript enumerates them). A number is the decimal
  the literal writes. A character is a code unit of the string; the copyright sign of the
  attribution is code unit A9.
\<close>

datatype json = Num rat | Str string | Arr "json list" | Obj "(string \<times> json) list"

definition PLAYFUL_GLOBE_STYLE :: json where
  "PLAYFUL_GLOBE_STYLE = Obj [
     (''version'', Num 8),
     (''name'', Str ''Playful Illustrated Globe''),
     (''sources'', Obj [
        (''terrain'', Obj [
           (''type'', Str ''raster''),
           (''tiles'', Arr [
              Str ''https://server.arcgisonline.com/ArcGIS/rest/services/World_Physical_Map/MapServer/tile/{z}/{y}/{x}'']),
           (''tileSize'', Num 256),
           (''maxzoom'', Num 8),
           (''attribution'', Str (CHR 0xA9 # '' Esri''))]),
        (''openmaptiles'', Obj [
           (''type'', Str ''vector''),
           (''url'', Str ''https://tiles.openfreemap.org/planet'')])]),
     (''layers'', Arr [
        Obj [
           (''id'', Str ''background''),
           (''type'', Str ''background''),
           (''paint'', Obj [
              (''background-color'', Str ''rgb(2, 4, 8)'')])],
        Obj [
           (''id'', Str ''terrain-raster''),
           (''type'', Str ''raster''),
           (''source'', Str ''terrain''),
           (''paint'', Obj [
              (''raster-opacity'', Num 1),
              (''raster-saturation'', Num 0.6),
              (''raster-contrast'', Num 0.1),
              (''raster-brightness-min'', Num 0.2)])],
        Obj [
           (''id'', Str ''water-fill''),
           (''type'', Str ''fill''),
           (''source'', Str ''openmaptiles''),
           (''source-layer'', Str ''water''),
           (''paint'', Obj [
              (''fill-color'', Str ''rgb(60, 140, 210)''),
              (''fill-opacity'', Num 0.5)])],
        Obj [
           (''id'', Str ''coastline-glow''),
           (''type'', Str ''line''),
           (''source'', Str ''openmaptiles''),
           (''source-layer'', Str ''water''),
           (''paint'', Obj [
              (''line-color'', Str ''rgb(160, 230, 255)''),
              (''line-width'', Num 2),
              (''line-blur'', Num 1),
              (''line-opacity'', Num 0.6)])],
        Obj [
           (''id'', Str ''landcover-green''),
           (''type'', Str ''fill''),
           (''source'', Str ''openmaptiles''),
           (''source-layer'', Str ''landcover''),
           (''paint'', Obj [
              (''fill-color'', Str ''rgb(130, 235, 120)''),
              (''fill-opacity'', Num 0.45)])],
        Obj [
           (''id'', Str ''landuse-green''),
           (''type'', Str ''fill''),
           (''source'', Str ''openmaptiles''),
           (''source-layer'', Str ''landuse''),
           (''paint'', Obj [
              (''fill-color'', Str ''rgb(150, 230, 140)''),
              (''fill-opacity'', Num 0.35)])],
        Obj [
           (''id'', Str ''continent-label''),
           (''type'', Str ''symbol''),
           (''source'', Str ''openmaptiles''),
           (''source-layer'', Str ''place''),
           (''filter'', Arr [Str ''=='', Str ''class'', Str ''continent'']),
           (''layout'', Obj [
              (''text-field'', Str ''{name:en}''),
              (''text-font'', Arr [Str ''Noto Sans Bold'']),
              (''text-size'', Num 18),
              (''text-transform'', Str ''uppercase''),
              (''text-letter-spacing'', Num 0.3)]),
           (''paint'', Obj [
              (''text-color'', Str ''rgb(100, 110, 120)''),
              (''text-halo-color'', Str ''rgba(255, 255, 255, 0.8)''),
              (''text-halo-width'', Num 2)])],
        Obj [
           (''id'', Str ''country-label''),
           (''type'', Str ''symbol''),
           (''source'', Str ''openmaptiles''),
           (''source-layer'', Str ''place''),
           (''filter'', Arr [Str ''=='', Str ''class'', Str ''country'']),
           (''layout'', Obj [
              (''text-field'', Str ''{name:en}''),
              (''text-font'', Arr [Str ''Noto Sans Regular'']),
              (''text-size'', Arr [Str ''interpolate'', Arr [Str ''linear''], Arr [Str ''zoom''],
                                   Num 2, Num 10, Num 5, Num 14]),
              (''text-transform'', Str ''uppercase''),
              (''text-letter-spacing'', Num 0.1)]),
           (''paint'', Obj [
              (''text-color'', Str ''rgb(120, 130, 140)''),
              (''text-halo-color'', Str ''rgba(255, 255, 255, 0.7)''),
              (''text-halo-width'', Num 1.5)])],
        Obj [
           (''id'', Str ''city-label''),
           (''type'', Str ''symbol''),
           (''source'', Str ''openmaptiles''),
           (''source-layer'', Str ''place''),
           (''minzoom'', Num 3),
           (''filter'', Arr [Str ''in'', Str ''class'', Str ''city'', Str ''town'']),
           (''layout'', Obj [
              (''text-field'', Str ''{name:en}''),
              (''text-font'', Arr [Str ''Noto Sans Regular'']),
              (''text-size'', Arr [Str ''interpolate'', Arr [Str ''linear''], Arr [Str ''zoom''],
                                   Num 3, Num 9, Num 8, Num 12]),
              (''text-anchor'', Str ''bottom''),
              (''text-offset'', Arr [Num 0, Num (- 0.5)])]),
           (''paint'', Obj [
              (''text-color'', Str ''rgb(80, 90, 100)''),
              (''text-halo-color'', Str ''white''),
              (''text-halo-width'', Num 1)])]]),
     (''glyphs'', Str ''https://tiles.openfreemap.org/fonts/{fontstack}/{range}.pbf''),
     (''sprite'', Str ''https://tiles.openfreemap.org/sprites/ofm_f384/ofm''),
     (''fog'', Obj [
        (''range'', Arr [Num 1, Num 15]),
        (''color'', Str ''rgb(255, 255, 255)''),
        (''high-color'', Str ''rgb(200, 230, 255)''),
        (''horizon-blend'', Num 0.05),
        (''space-color'', Str ''rgb(5, 5, 10)''),
        (''star-intensity'', Num 0.15)])]"

subsection \<open>Reading the document\<close>

text \<open>Property access \<open>v[k]\<close>; undefined (\<open>None\<close>) on a value that is no object.\<close>

definition field :: "string \<Rightarrow> json \<Rightarrow> json option" where
  "field k v = (case v of Obj kvs \<Rightarrow> map_of kvs k | _ \<Rightarrow> None)"

definition layers :: "json \<Rightarrow> json list" where
  "layers doc = (case field ''layers'' doc of Some (Arr ls) \<Rightarrow> ls | _ \<Rightarrow> [])"

definition layer_ids :: "json \<Rightarrow> json option list" where
  "layer_ids doc = map (field ''id'') (layers doc)"

text \<open>
  A value depends on the zoom level where it holds the expression \<open>['zoom']\<close> or a
  function object with \<open>stops\<close>; \<open>zoom_count\<close> counts these places in a value.
\<close>

fun zoom_count :: "json \<Rightarrow> nat" where
  "zoom_count (Num n) = 0"
| "zoom_count (Str s) = 0"
| "zoom_count (Arr xs) = (if xs = [Str ''zoom''] then 1 else sum_list (map zoom_count xs))"
| "zoom_count (Obj kvs) =
     (if map_of kvs ''stops'' \<noteq> None then 1 else 0)
       + sum_list (map (\<lambda>kv. zoom_count (snd kv)) kvs)"

text \<open>
  The properties of a layer's \<open>paint\<close> and \<open>layout\<close> objects, each with the name of
  its object, and those of all layers that depend on the zoom level, each with its
  layer's id.
\<close>

definition group_props :: "string \<Rightarrow> json \<Rightarrow> (string \<times> string \<times> json) list" where
  "group_props g layer =
     (case field g layer of Some (Obj kvs) \<Rightarrow> map (\<lambda>kv. (g, fst kv, snd kv)) kvs | _ \<Rightarrow> [])"

definition layer_props :: "json \<Rightarrow> (string \<times> string \<times> json) list" where
  "layer_props layer = group_props ''paint'' layer @ group_props ''layout'' layer"

definition zoom_properties :: "json \<Rightarrow> (json option \<times> string \<times> string \<times> json) list" where
  "zoom_properties doc =
     concat (map (\<lambda>l. map (\<lambda>gpv. (field ''id'' l, gpv))
                         (filter (\<lambda>gpv. 0 < zoom_count (snd (snd gpv))) (layer_props l)))
                 (layers doc))"

text \<open>
  The breakpoints of an expression
  \<open>['interpolate', ['linear'], ['zoom'], z1, v1, z2, v2, ...]\<close> with numeric
  breakpoints; \<open>None\<close> for every other value.
\<close>

fun breakpoints :: "json list \<Rightarrow> (rat \<times> rat) list option" where
  "breakpoints [] = Some []"
| "breakpoints (Num z # Num v # rest) =
     (case breakpoints rest of None \<Rightarrow> None | Some ps \<Rightarrow> Some ((z, v) # ps))"
| "breakpoints _ = None"

definition linear_zoom_breakpoints :: "json \<Rightarrow> (rat \<times> rat) list option" where
  "linear_zoom_breakpoints v =
     (case v of
        Arr (h # i # z # rest) \<Rightarrow>
          if h = Str ''interpolate'' \<and> i = Arr [Str ''linear''] \<and> z = Arr [Str ''zoom'']
          then breakpoints rest else None
      | _ \<Rightarrow> None)"

section \<open>Properties of the component\<close>

subsection \<open>Auxiliary facts\<close>

text \<open>\<open>str_includes\<close> is the contiguous-sublist relation of the library.\<close>

lemma str_includes_sublist: "str_includes s sub = sublist sub s"
  by (induction s) (auto simp: sublist_Cons_right)

text \<open>
  Neither handler touches the widget reference, the record of constructions, the
  registered listeners or the record of disposals.
\<close>

lemma load_handler_frame:
  "mapRef (load_handler mp s) = mapRef s"
  "removed (load_handler mp s) = removed s"
  "constructed (load_handler mp s) = constructed s"
  "listeners (load_handler mp s) = listeners s"
  by (simp_all add: load_handler_def setStatus_def Let_def)

lemma error_handler_frame:
  "mapRef (error_handler e s) = mapRef s"
  "removed (error_handler e s) = removed s"
  "constructed (error_handler e s) = constructed s"
  "listeners (error_handler e s) = listeners s"
  by (simp_all add: error_handler_def setStatus_def Let_def split: option.splits)

lemma fold_load_frame:
  "mapRef (fold (\<lambda>_. load_handler mp) xs s) = mapRef s
   \<and> removed (fold (\<lambda>_. load_handler mp) xs s) = removed s
   \<and> constructed (fold (\<lambda>_. load_handler mp) xs s) = constructed s"
  by (induction xs arbitrary: s) (simp_all add: load_handler_frame)

lemma fold_error_frame:
  "mapRef (fold (\<lambda>_. error_handler e) xs s) = mapRef s
   \<and> removed (fold (\<lambda>_. error_handler e) xs s) = removed s
   \<and> constructed (fold (\<lambda>_. error_handler e) xs s) = constructed s"
  by (induction xs arbitrary: s) (simp_all add: error_handler_frame)

lemma fire_frame:
  "mapRef (fire ev s) = mapRef s \<and> removed (fire ev s) = removed s
   \<and> constructed (fire ev s) = constructed s"
proof (cases ev)
  case (Pair mp k)
  then show ?thesis
    by (cases k) (simp_all add: fold_load_frame fold_error_frame)
qed

lemma fold_fire_frame:
  "mapRef (fold fire evs s) = mapRef s \<and> removed (fold fire evs s) = removed s
   \<and> constructed (fold fire evs s) = constructed s"
  by (induction evs arbitrary: s) (simp_all add: fire_frame)

text \<open>
  A run of the effect that starts without a widget either leaves the reference null and
  constructs nothing, or constructs one widget and stores it.
\<close>

lemma mount_effect_cases:
  assumes "mapRef s = None"
  shows "(mapRef (fst (mount_effect env s)) = None
            \<and> constructed (fst (mount_effect env s)) = constructed s
            \<and> (\<not> container s \<or> isl (new_Map env)))
       \<or> (\<exists>mp. mapRef (fst (mount_effect env s)) = Some mp
            \<and> constructed (fst (mount_effect env s)) = constructed s @ [mp]
            \<and> container s \<and> \<not> isl (new_Map env))"
  using assms
  by (auto simp: mount_effect_def try_body_def catch_handler_def setStatus_def Let_def
           split: sum.splits option.splits thrown.splits)

lemma mount_effect_removed: "removed (fst (mount_effect env s)) = removed s"
  by (auto simp: mount_effect_def try_body_def catch_handler_def setStatus_def Let_def
           split: sum.splits option.splits thrown.splits)

lemma mount_effect_no_cleanup:
  "snd (mount_effect env s) = Returned_undefined \<Longrightarrow> fst (mount_effect env s) = s"
  by (auto simp: mount_effect_def try_body_def catch_handler_def setStatus_def Let_def
           split: sum.splits option.splits thrown.splits if_splits)

lemma mount_effect_undefined_initial:
  "snd (mount_effect env (initial c)) = Returned_undefined \<Longrightarrow> \<not> c"
  by (auto simp: mount_effect_def try_body_def catch_handler_def initial_def Let_def
           split: sum.splits option.splits thrown.splits if_splits)

text \<open>The cleanup disposes at most once: run a second time it changes nothing.\<close>

lemma cleanup_idempotent: "cleanup (cleanup s) = cleanup s"
  by (simp add: cleanup_def split: option.splits)

text \<open>
  After a mount whose registrations succeeded, a \<open>load\<close> event on the mounted widget
  runs the load handler once.
\<close>

lemma fire_load_after_mount:
  assumes "new_Map env = Inr sp" "on_load env = None" "on_error env = None"
    and "mount_effect env (initial True) = (s1, r)" "mapRef s1 = Some mp"
  shows "fire (mp, Load) s1 = load_handler mp s1"
  using assms
  by (auto simp: mount_effect_def try_body_def initial_def Let_def)

subsection \<open>Unmount\<close>

text \<open>
  Claim C1, as the code has it. Take one mounted life of the component from its initial
  state: the effect runs once and returns (it does not end in an exception), any events
  are delivered, then the component unmounts. Afterwards the widget reference is null,
  every widget that was constructed has been disposed exactly once and nothing else
  was disposed; so disposal was invoked once when a widget was constructed (the container
  was present and the constructor returned) and not at all otherwise.
\<close>

theorem unmount_disposes_constructed_widget:
  assumes "snd (mount_effect env (initial c)) \<noteq> Threw TypeError"
  shows "mapRef (lifecycle env evs (initial c)) = None
       \<and> removed (lifecycle env evs (initial c))
           = map wid (constructed (lifecycle env evs (initial c)))
       \<and> length (removed (lifecycle env evs (initial c)))
           = (if c \<and> \<not> isl (new_Map env) then 1 else 0)"
proof -
  obtain s1 r where m: "mount_effect env (initial c) = (s1, r)"
    by (cases "mount_effect env (initial c)")
  have i: "mapRef (initial c) = None" "constructed (initial c) = []"
    "removed (initial c) = []" "container (initial c) = c"
    by (simp_all add: initial_def)
  let ?s2 = "fold fire evs s1"
  have f: "mapRef ?s2 = mapRef s1" "removed ?s2 = removed s1" "constructed ?s2 = constructed s1"
    by (simp_all add: fold_fire_frame)
  have rm: "removed s1 = []"
    using mount_effect_removed[of env "initial c"] m i by simp
  have L: "lifecycle env evs (initial c) = unmount r ?s2"
    by (simp add: lifecycle_def m)
  from assms m have nt: "r \<noteq> Threw TypeError" by simp
  show ?thesis
  proof (cases r)
    case Returned_undefined
    then have "s1 = initial c"
      using mount_effect_no_cleanup[of env "initial c"] m by simp
    moreover have "\<not> c"
      using Returned_undefined m mount_effect_undefined_initial[of env c] by simp
    ultimately show ?thesis
      using L f i Returned_undefined by (simp add: unmount_def)
  next
    case Returned_cleanup
    from mount_effect_cases[OF i(1), of env] m i
    consider (unset) "mapRef s1 = None" "constructed s1 = []" "\<not> c \<or> isl (new_Map env)"
      | (stored) mp where "mapRef s1 = Some mp" "constructed s1 = [mp]" "c" "\<not> isl (new_Map env)"
      by auto
    then show ?thesis
    proof cases
      case unset
      then show ?thesis
        using L f rm Returned_cleanup by (auto simp: unmount_def cleanup_def)
    next
      case stored
      then show ?thesis
        using L f rm Returned_cleanup by (auto simp: unmount_def cleanup_def)
    qed
  next
    case (Threw x)
    then show ?thesis using nt by (cases x) simp
  qed
qed

theorem unmount_disposes_constructed_widget_witness:
  "snd (mount_effect \<lparr>new_Map = Inr True, on_load = None, on_error = None\<rparr> (initial True))
     \<noteq> Threw TypeError
   \<and> mapRef (lifecycle \<lparr>new_Map = Inr True, on_load = None, on_error = None\<rparr>
        [(\<lparr>wid = 0, has_setProjection = True\<rparr>, Load)] (initial True)) = None
   \<and> length (removed (lifecycle \<lparr>new_Map = Inr True, on_load = None, on_error = None\<rparr>
        [(\<lparr>wid = 0, has_setProjection = True\<rparr>, Load)] (initial True))) = 1"
proof -
  have h: "snd (mount_effect \<lparr>new_Map = Inr True, on_load = None, on_error = None\<rparr> (initial True))
             \<noteq> Threw TypeError"
    by (simp add: mount_effect_def try_body_def initial_def Let_def)
  note t = unmount_disposes_constructed_widget[OF h,
      of "[(\<lparr>wid = 0, has_setProjection = True\<rparr>, Load)]"]
  from t have r: "mapRef (lifecycle \<lparr>new_Map = Inr True, on_load = None, on_error = None\<rparr>
        [(\<lparr>wid = 0, has_setProjection = True\<rparr>, Load)] (initial True)) = None"
    by (rule conjunct1)
  from t have "length (removed (lifecycle \<lparr>new_Map = Inr True, on_load = None, on_error = None\<rparr>
        [(\<lparr>wid = 0, has_setProjection = True\<rparr>, Load)] (initial True)))
      = (if True \<and> \<not> isl (new_Map \<lparr>new_Map = Inr True, on_load = None, on_error = None\<rparr>)
         then 1 else 0)"
    by (rule conjunct2[THEN conjunct2])
  then have n: "length (removed (lifecycle \<lparr>new_Map = Inr True, on_load = None, on_error = None\<rparr>
        [(\<lparr>wid = 0, has_setProjection = True\<rparr>, Load)] (initial True))) = 1"
    by simp
  from h r n show ?thesis by (intro conjI)
qed

text \<open>
  Claim C1 as the specification words it fails where no widget was constructed. The
  constructor throws \<open>invalid container\<close>: the cleanup finds the reference null and
  never calls \<open>remove\<close>. The container is absent: the effect returns before it hands
  React a cleanup. In both lives disposal is invoked zero times, not once.
\<close>

theorem unmount_without_widget_disposes_nothing:
  "\<not> (length (removed (lifecycle
          \<lparr>new_Map = Inl (Thrown_value (Some ''invalid container'')), on_load = None,
           on_error = None\<rparr> [] (initial True))) = 1)
   \<and> \<not> (length (removed (lifecycle
          \<lparr>new_Map = Inr True, on_load = None, on_error = None\<rparr> [] (initial False))) = 1)"
  by (simp add: lifecycle_def mount_effect_def try_body_def catch_handler_def setStatus_def
        template_def unmount_def cleanup_def initial_def)

subsection \<open>The error handler\<close>

text \<open>
  Claim C2. An \<open>error\<close> event whose message contains \<open>glyph\<close> or contains
  \<open>sprite\<close> leaves the status text as it was and makes no call of \<open>setStatus\<close>:
  the handler only writes its diagnostic line to the console.
\<close>

theorem error_handler_suppresses_glyph_sprite:
  assumes "optional_message e = Some m"
    and "str_includes m ''glyph'' \<or> str_includes m ''sprite''"
  shows "status (error_handler e s) = status s
       \<and> status_log (error_handler e s) = status_log s
       \<and> error_handler e s = s\<lparr>console := console s @ [Console_error ''Map Error:'' e]\<rparr>"
  using assms by (auto simp: error_handler_def Let_def)

theorem error_handler_suppresses_glyph_sprite_witness:
  "status (error_handler (ErrorEvent (Some (JsError (Some ''glyph fetch failed''))))
      (initial True)) = ''Initializing Globe...''
   \<and> status_log (error_handler (ErrorEvent (Some (JsError (Some ''glyph fetch failed''))))
      (initial True)) = []"
proof -
  have m: "optional_message (ErrorEvent (Some (JsError (Some ''glyph fetch failed''))))
             = Some ''glyph fetch failed''"
    by (simp add: optional_message_def)
  have g: "str_includes ''glyph fetch failed'' ''glyph''
             \<or> str_includes ''glyph fetch failed'' ''sprite''"
    by simp
  show ?thesis
    using error_handler_suppresses_glyph_sprite[OF m g, of "initial True"]
    by (simp add: initial_def)
qed

text \<open>
  Claim C3, as the code has it. An \<open>error\<close> event whose message \<open>m\<close> is not empty
  and contains neither \<open>glyph\<close> nor \<open>sprite\<close> sets the status text to \<open>Error: \<close>
  followed by \<open>m\<close>, by one call of \<open>setStatus\<close>.
\<close>

theorem error_handler_surfaces_message:
  assumes "optional_message e = Some m" and "m \<noteq> []"
    and "\<not> str_includes m ''glyph''" and "\<not> str_includes m ''sprite''"
  shows "status (error_handler e s) = ''Error: '' @ m
       \<and> status_log (error_handler e s) = status_log s @ [''Error: '' @ m]"
  using assms by (simp add: error_handler_def setStatus_def)

theorem error_handler_surfaces_message_witness:
  "status (error_handler (ErrorEvent (Some (JsError (Some ''WebGL context lost''))))
      (initial True)) = ''Error: WebGL context lost''"
proof -
  have m: "optional_message (ErrorEvent (Some (JsError (Some ''WebGL context lost''))))
             = Some ''WebGL context lost''"
    by (simp add: optional_message_def)
  have n: "''WebGL context lost'' \<noteq> []" by simp
  have g: "\<not> str_includes ''WebGL context lost'' ''glyph''" by simp
  have p: "\<not> str_includes ''WebGL context lost'' ''sprite''" by simp
  show ?thesis
    using error_handler_surfaces_message[OF m n g p, of "initial True"] by simp
qed

text \<open>
  Claim C3 as the specification words it fails at a message that is present and empty
  (the message of \<open>new Error()\<close>): it contains neither word, yet the guard finds it
  falsy and the status text stays \<open>Initializing Globe...\<close>.
\<close>

theorem error_handler_empty_message_not_surfaced:
  "optional_message (ErrorEvent (Some (JsError (Some [])))) = Some []
   \<and> \<not> str_includes [] ''glyph'' \<and> \<not> str_includes [] ''sprite''
   \<and> status (error_handler (ErrorEvent (Some (JsError (Some [])))) (initial True))
       \<noteq> ''Error: '' @ []"
  by (simp add: optional_message_def error_handler_def initial_def)

text \<open>
  Claim C10. An \<open>error\<close> event with no error object, with no message, or with the empty
  message never changes the status text and makes no call of \<open>setStatus\<close>.
\<close>

theorem error_handler_ignores_missing_message:
  assumes "error e = None \<or> error e = Some (JsError None) \<or> error e = Some (JsError (Some []))"
  shows "status (error_handler e s) = status s
       \<and> status_log (error_handler e s) = status_log s"
  using assms by (auto simp: error_handler_def optional_message_def)

theorem error_handler_ignores_missing_message_witness:
  "status (error_handler (ErrorEvent None) (initial True)) = ''Initializing Globe...''
   \<and> status (error_handler (ErrorEvent (Some (JsError None))) (initial True))
       = ''Initializing Globe...''
   \<and> status (error_handler (ErrorEvent (Some (JsError (Some [])))) (initial True))
       = ''Initializing Globe...''"
  using error_handler_ignores_missing_message[of "ErrorEvent None" "initial True"]
    error_handler_ignores_missing_message[of "ErrorEvent (Some (JsError None))" "initial True"]
    error_handler_ignores_missing_message[of "ErrorEvent (Some (JsError (Some [])))" "initial True"]
  by (simp add: initial_def)

subsection \<open>Construction failures\<close>

text \<open>
  Claim C4. When the constructor throws a value whose message is \<open>m\<close>, the effect
  catches it: the run ends by returning its cleanup, not in an exception, and the status
  text is \<open>Initialization Failed: \<close> followed by \<open>m\<close>. (The constructor is reached
  only past both guards: no widget stored yet and the container present.)
\<close>

theorem construction_failure_caught:
  assumes "mapRef s = None" and "container s"
    and "new_Map env = Inl (Thrown_value (Some m))"
  shows "snd (mount_effect env s) = Returned_cleanup
       \<and> status (fst (mount_effect env s)) = ''Initialization Failed: '' @ m"
  using assms
  by (simp add: mount_effect_def try_body_def catch_handler_def setStatus_def template_def)

theorem construction_failure_caught_witness:
  "snd (mount_effect \<lparr>new_Map = Inl (Thrown_value (Some ''invalid container'')),
          on_load = None, on_error = None\<rparr> (initial True)) = Returned_cleanup
   \<and> status (fst (mount_effect \<lparr>new_Map = Inl (Thrown_value (Some ''invalid container'')),
          on_load = None, on_error = None\<rparr> (initial True)))
       = ''Initialization Failed: invalid container''"
proof -
  have r: "mapRef (initial True) = None" by (simp add: initial_def)
  have c: "container (initial True)" by (simp add: initial_def)
  have n: "new_Map \<lparr>new_Map = Inl (Thrown_value (Some ''invalid container'')),
             on_load = None, on_error = None\<rparr> = Inl (Thrown_value (Some ''invalid container''))"
    by simp
  show ?thesis
    using construction_failure_caught[OF r c n] by simp
qed

subsection \<open>The load handler\<close>

text \<open>
  Claim C5, as the code has it. The load handler sets the status text to the empty
  string; it calls \<open>setProjection\<close> with the globe projection exactly once when the
  widget instance has a \<open>setProjection\<close> method, and makes no such call when it has
  none.
\<close>

theorem load_handler_clears_status_and_reasserts:
  "status (load_handler mp s) = []
   \<and> projections (load_handler mp s)
       = projections s @ (if has_setProjection mp then [(wid mp, ''globe'')] else [])"
  by (simp add: load_handler_def setStatus_def Let_def)

text \<open>
  Claim C5 as the specification words it fails at a widget instance without a
  \<open>setProjection\<close> method: the handler's own test skips the call.
\<close>

theorem load_handler_without_setProjection:
  "\<not> (length (projections (load_handler \<lparr>wid = 0, has_setProjection = False\<rparr> (initial True)))
        = length (projections (initial True)) + 1)"
  by (simp add: load_handler_def setStatus_def initial_def)

subsection \<open>Idempotent mount\<close>

text \<open>
  Every step keeps this relation: the widgets constructed so far are those already
  disposed, followed by the one the reference holds, if it holds one.
\<close>

lemma mount_effect_live:
  assumes "map wid (constructed s) = removed s @ referenced s"
  shows "map wid (constructed (fst (mount_effect env s)))
           = removed (fst (mount_effect env s)) @ referenced (fst (mount_effect env s))"
proof (cases "mapRef s")
  case None
  from mount_effect_cases[OF None, of env] show ?thesis
    using assms None mount_effect_removed[of env s] by (auto simp: referenced_def)
next
  case (Some mp)
  then show ?thesis using assms by (simp add: mount_effect_def)
qed

lemma cleanup_live:
  assumes "map wid (constructed s) = removed s @ referenced s"
  shows "map wid (constructed (cleanup s)) = removed (cleanup s) @ referenced (cleanup s)"
  using assms by (simp add: cleanup_def referenced_def split: option.splits)

lemma fire_live:
  assumes "map wid (constructed s) = removed s @ referenced s"
  shows "map wid (constructed (fire ev s)) = removed (fire ev s) @ referenced (fire ev s)"
  using assms by (simp add: fire_frame referenced_def)

lemma run_step_live:
  assumes "map wid (constructed (fst p)) = removed (fst p) @ referenced (fst p)"
  shows "map wid (constructed (fst (run_step st p)))
           = removed (fst (run_step st p)) @ referenced (fst (run_step st p))"
proof (cases p)
  case (Pair s r)
  with assms have a: "map wid (constructed s) = removed s @ referenced s" by simp
  show ?thesis
  proof (cases st)
    case (Run_effect env)
    then show ?thesis using Pair mount_effect_live[OF a, of env] by simp
  next
    case Run_unmount
    then show ?thesis using Pair a cleanup_live[OF a] by (simp add: unmount_def)
  next
    case (Deliver ev)
    then show ?thesis using Pair fire_live[OF a, of ev] by simp
  qed
qed

lemma fold_run_step_live:
  "map wid (constructed (fst p)) = removed (fst p) @ referenced (fst p) \<Longrightarrow>
   map wid (constructed (fst (fold run_step steps p)))
     = removed (fst (fold run_step steps p)) @ referenced (fst (fold run_step steps p))"
  by (induction steps arbitrary: p) (simp_all add: run_step_live)

lemma run_step_removed:
  "length (removed (fst (run_step st p)))
     \<le> length (removed (fst p)) + (if st = Run_unmount then 1 else 0)"
proof (cases p)
  case (Pair s r)
  show ?thesis
  proof (cases st)
    case (Run_effect env)
    then show ?thesis using Pair mount_effect_removed[of env s] by simp
  next
    case Run_unmount
    then show ?thesis using Pair by (simp add: unmount_def cleanup_def split: option.splits)
  next
    case (Deliver ev)
    then show ?thesis using Pair by (simp add: fire_frame)
  qed
qed

lemma fold_run_step_removed:
  "length (removed (fst (fold run_step steps p)))
     \<le> length (removed (fst p)) + length (filter (\<lambda>st. st = Run_unmount) steps)"
proof (induction steps arbitrary: p)
  case Nil
  then show ?case by simp
next
  case (Cons st steps)
  from Cons.IH[of "run_step st p"] run_step_removed[of st p]
  show ?case by (simp split: if_splits)
qed

lemma referenced_length: "length (referenced s) \<le> 1"
  by (simp add: referenced_def split: option.splits)

text \<open>
  Claim C6, as the code has it. A run of the effect that finds the widget reference set
  skips construction entirely: it changes nothing. Over every schedule of effect runs,
  unmounts and events on one component instance, every widget constructed is either
  disposed already or the single one the reference holds, so at most one constructed
  widget is undisposed at any moment; and the widgets constructed number at most one
  more than the unmounts, hence at most one as long as no unmount has run.
\<close>

theorem mount_effect_one_undisposed_widget:
  "mount_effect env (s\<lparr>mapRef := Some mp\<rparr>) = (s\<lparr>mapRef := Some mp\<rparr>, Returned_undefined)
   \<and> map wid (constructed (react_run steps c))
       = removed (react_run steps c) @ referenced (react_run steps c)
   \<and> length (referenced (react_run steps c)) \<le> 1
   \<and> length (constructed (react_run steps c))
       \<le> Suc (length (filter (\<lambda>st. st = Run_unmount) steps))"
proof -
  have i: "map wid (constructed (fst (initial c, Returned_undefined)))
             = removed (fst (initial c, Returned_undefined))
               @ referenced (fst (initial c, Returned_undefined))"
    by (simp add: initial_def referenced_def)
  have live: "map wid (constructed (react_run steps c))
                = removed (react_run steps c) @ referenced (react_run steps c)"
    unfolding react_run_def by (rule fold_run_step_live[OF i])
  have rm: "length (removed (react_run steps c)) \<le> length (filter (\<lambda>st. st = Run_unmount) steps)"
    using fold_run_step_removed[of steps "(initial c, Returned_undefined)"]
    by (simp add: react_run_def initial_def)
  have "length (constructed (react_run steps c))
          = length (removed (react_run steps c)) + length (referenced (react_run steps c))"
    using arg_cong[OF live, of length] by simp
  with rm referenced_length[of "react_run steps c"]
  have bound: "length (constructed (react_run steps c))
                 \<le> Suc (length (filter (\<lambda>st. st = Run_unmount) steps))"
    by simp
  have guard: "mount_effect env (s\<lparr>mapRef := Some mp\<rparr>) = (s\<lparr>mapRef := Some mp\<rparr>, Returned_undefined)"
    by (simp add: mount_effect_def)
  from guard live referenced_length[of "react_run steps c"] bound show ?thesis by (intro conjI)
qed

text \<open>
  Claim C6 as the specification words it fails when the effect runs again after its
  cleanup, as under React's StrictMode (effect, cleanup, effect on the same instance):
  the cleanup has set the reference to null, the guard lets the second run through, and
  a second widget is constructed.
\<close>

theorem mount_effect_reconstructs_after_cleanup:
  "\<not> (length (constructed (react_run
         [Run_effect \<lparr>new_Map = Inr True, on_load = None, on_error = None\<rparr>,
          Run_unmount,
          Run_effect \<lparr>new_Map = Inr True, on_load = None, on_error = None\<rparr>] True)) \<le> 1)"
  by (simp add: react_run_def mount_effect_def try_body_def unmount_def cleanup_def
        initial_def Let_def)

section \<open>Properties of the Style Document\<close>

text \<open>
  Claim C7. The layers of the Style Document carry, in this order, the nine ids
  background, terrain-raster, water-fill, coastline-glow, landcover-green, landuse-green,
  continent-label, country-label, city-label.
\<close>

theorem style_layer_order:
  "layer_ids PLAYFUL_GLOBE_STYLE =
     [Some (Str ''background''), Some (Str ''terrain-raster''), Some (Str ''water-fill''),
      Some (Str ''coastline-glow''), Some (Str ''landcover-green''),
      Some (Str ''landuse-green''), Some (Str ''continent-label''),
      Some (Str ''country-label''), Some (Str ''city-label'')]"
  by (simp add: layer_ids_def layers_def field_def PLAYFUL_GLOBE_STYLE_def)

text \<open>
  Claim C9. The paint and layout values of the Style Document that depend on the zoom
  level are exactly two, the \<open>text-size\<close> of \<open>country-label\<close> and of
  \<open>city-label\<close>; each is a linear interpolation over the zoom level, the first with
  breakpoints (2, 10) and (5, 14), the second with (3, 9) and (8, 12). The whole
  document refers to the zoom level in two places, so nowhere else.
\<close>

theorem style_zoom_interpolations:
  "map (\<lambda>(i, g, p, v). (i, g, p, linear_zoom_breakpoints v)) (zoom_properties PLAYFUL_GLOBE_STYLE)
     = [(Some (Str ''country-label''), ''layout'', ''text-size'', Some [(2, 10), (5, 14)]),
        (Some (Str ''city-label''), ''layout'', ''text-size'', Some [(3, 9), (8, 12)])]
   \<and> zoom_count PLAYFUL_GLOBE_STYLE = 2"
  by (simp add: zoom_properties_def layers_def layer_props_def group_props_def field_def
        linear_zoom_breakpoints_def PLAYFUL_GLOBE_STYLE_def)

end
